theory Spec2Isabelle
  imports Complex_Main "HOL-Library.Finite_Map"
begin

section \<open>buildSystem.py: strip and re-add hydrogens, write mmCIF without clobbering\<close>

text \<open>
  The script \<^verbatim>\<open>openmm/amberff/buildSystem.py\<close> is a linear pipeline: parse the
  command line, seed the random number generator, resolve the platform, pick a structure
  parser from the file extension, read the structure, delete and re-add the hydrogen
  atoms, derive the output name, move any file already at that name out of the way, write.

  The embedding below follows the script statement by statement. What the script mutates
  (the argument namespace \<^verbatim>\<open>cmd\<close>, the properties dictionary, the file system, the log, the
  modeller) is a record that is passed along; every \<^verbatim>\<open>raise\<close> and the \<^verbatim>\<open>sys.exit(1)\<close> is a
  value. The molecular toolkit (OpenMM) is not part of the repository: its routines are
  the fields of a record of functions that the script receives, except for
  \<^verbatim>\<open>Modeller.delete\<close>, whose documented behaviour is written out.
\<close>

subsection \<open>Python strings\<close>

text \<open>\<^verbatim>\<open>'{}'.format(num)\<close> for a non-negative integer: its decimal digits.\<close>

function str_nat :: "nat \<Rightarrow> string" where
  "str_nat n = (if n < 10 then [''0123456789'' ! n]
                else str_nat (n div 10) @ [''0123456789'' ! (n mod 10)])"
  by pat_completeness auto
termination
  by (relation "measure id") auto

declare str_nat.simps [simp del]

definition str_int :: "int \<Rightarrow> string" where
  "str_int i = (if i < 0 then CHR ''-'' # str_nat (nat (- i)) else str_nat (nat i))"

text \<open>\<^verbatim>\<open>s.endswith(suffix)\<close>: exact comparison of the last characters.\<close>

definition endswith :: "string \<Rightarrow> string \<Rightarrow> bool" where
  "endswith s suffix =
     (length suffix \<le> length s \<and> drop (length s - length suffix) s = suffix)"

text \<open>\<^verbatim>\<open>p.rfind(c)\<close>: the index of the last occurrence of \<open>c\<close>, or \<open>-1\<close>.\<close>

fun rfind_from :: "string \<Rightarrow> char \<Rightarrow> int \<Rightarrow> int \<Rightarrow> int" where
  "rfind_from [] c i found = found"
| "rfind_from (x # xs) c i found = rfind_from xs c (i + 1) (if x = c then i else found)"

definition rfind :: "string \<Rightarrow> char \<Rightarrow> int" where
  "rfind p c = rfind_from p c 0 (- 1)"

definition rstrip :: "string \<Rightarrow> char \<Rightarrow> string" where
  "rstrip s c = rev (dropWhile (\<lambda>x. x = c) (rev s))"

subsection \<open>\<^verbatim>\<open>os.path\<close>\<close>

text \<open>
  \<^verbatim>\<open>os.path.splitext\<close> (POSIX flavour): the extension starts at the last dot of the last
  path component, unless that component consists of leading dots up to there.
  \<^verbatim>\<open>
  sepIndex = p.rfind(sep)
  dotIndex = p.rfind(extsep)
  if dotIndex > sepIndex:
      filenameIndex = sepIndex + 1
      while filenameIndex < dotIndex:
          if p[filenameIndex:filenameIndex+1] != extsep:
              return p[:dotIndex], p[dotIndex:]
          filenameIndex += 1
  return p, p[:0]
  \<close>
\<close>

function splitext_loop :: "string \<Rightarrow> int \<Rightarrow> int \<Rightarrow> (string \<times> string) option" where
  "splitext_loop p filenameIndex dotIndex =
     (if filenameIndex < dotIndex then
        if take 1 (drop (nat filenameIndex) p) \<noteq> ''.''
        then Some (take (nat dotIndex) p, drop (nat dotIndex) p)
        else splitext_loop p (filenameIndex + 1) dotIndex
      else None)"
  by pat_completeness auto
termination
  by (relation "measure (\<lambda>(p, filenameIndex, dotIndex). nat (dotIndex - filenameIndex))") auto

declare splitext_loop.simps [simp del]

definition splitext :: "string \<Rightarrow> string \<times> string" where
  "splitext p =
     (let sepIndex = rfind p CHR ''/'';
          dotIndex = rfind p CHR ''.''
      in if dotIndex > sepIndex then
           case splitext_loop p (sepIndex + 1) dotIndex of
             Some r \<Rightarrow> r
           | None \<Rightarrow> (p, [])
         else (p, []))"

text \<open>
  \<^verbatim>\<open>os.path.dirname\<close>: everything up to the last slash, trailing slashes removed unless
  the head is made of slashes only.
\<close>

definition dirname :: "string \<Rightarrow> string" where
  "dirname p =
     (let i = rfind p CHR ''/'' + 1;
          head = take (nat i) p
      in if head \<noteq> [] \<and> head \<noteq> replicate (length head) CHR ''/''
         then rstrip head CHR ''/'' else head)"

text \<open>\<^verbatim>\<open>os.path.basename\<close>: what follows the last slash.\<close>

definition basename :: "string \<Rightarrow> string" where
  "basename p = drop (nat (rfind p CHR ''/'' + 1)) p"

subsection \<open>The file system\<close>

text \<open>
  What is at each path: the regular files with their contents, the directories, and the
  symbolic links that lead to a path at which nothing exists, each with that path (a link
  to an existing file stands in the file system as that file, under both names). The paths
  in \<open>readonly\<close> are closed to writing: no entry can be created in or removed from such a
  directory, and such a file cannot be written. Paths are compared as the strings they are
  (no normalisation of \<^verbatim>\<open>..\<close> or doubled slashes). The current directory (empty directory
  part) and the root always exist.
\<close>

datatype os_error = ENOENT | EISDIR | ENAMETOOLONG | EACCES

record filesystem =
  files :: "(string, string) fmap"
  dirs :: "string set"
  symlinks :: "(string, string) fmap"
  readonly :: "string set"

text \<open>\<^verbatim>\<open>os.path.isfile\<close> follows links: it is false for a link that leads nowhere.\<close>

definition isfile :: "filesystem \<Rightarrow> string \<Rightarrow> bool" where
  "isfile fs p = (fmlookup (files fs) p \<noteq> None)"

definition parent_exists :: "filesystem \<Rightarrow> string \<Rightarrow> bool" where
  "parent_exists fs p =
     (let d = dirname p
      in d = [] \<or> d = replicate (length d) CHR ''/'' \<or> d \<in> dirs fs)"

text \<open>The limits of Linux on the length of a path and of one of its components.\<close>

definition PATH_MAX :: nat where
  "PATH_MAX = 4096"

definition NAME_MAX :: nat where
  "NAME_MAX = 255"

text \<open>
  Why no entry that is not a directory can be put at a path: the path is empty or too
  long, the directory that is to hold it does not exist, its last component is too long,
  or a directory is there.
\<close>

definition entry_error :: "filesystem \<Rightarrow> string \<Rightarrow> os_error option" where
  "entry_error fs p =
     (if p = [] then Some ENOENT
      else if PATH_MAX \<le> length p then Some ENAMETOOLONG
      else if \<not> parent_exists fs p then Some ENOENT
      else if NAME_MAX < length (basename p) then Some ENAMETOOLONG
      else if p \<in> dirs fs then Some EISDIR
      else None)"

text \<open>
  \<^verbatim>\<open>os.rename(src, dst)\<close> of a regular file, which is what the script renames. It fails
  when \<open>src\<close> does not exist, when no entry can be put at \<open>dst\<close>, and when the directory of
  \<open>src\<close> or of \<open>dst\<close> is closed to writing. Otherwise the contents move from \<open>src\<close> to \<open>dst\<close>,
  and what was at \<open>dst\<close> (a file, or a link that leads nowhere) is gone.
\<close>

definition os_rename :: "filesystem \<Rightarrow> string \<Rightarrow> string \<Rightarrow> os_error + filesystem" where
  "os_rename fs src dst =
     (case fmlookup (files fs) src of
        None \<Rightarrow> Inl ENOENT
      | Some content \<Rightarrow>
          (case entry_error fs dst of
             Some e \<Rightarrow> Inl e
           | None \<Rightarrow>
               if dirname src \<in> readonly fs \<or> dirname dst \<in> readonly fs then Inl EACCES
               else Inr (fs\<lparr>files := fmupd dst content (fmdrop src (files fs)),
                           symlinks := fmdrop dst (symlinks fs)\<rparr>)))"

text \<open>
  \<^verbatim>\<open>open(path, 'w')\<close> creates or truncates the file, at the path that a link leads to when
  \<open>path\<close> is such a link. The handle is the names under which the file stands.
\<close>

definition open_w :: "filesystem \<Rightarrow> string \<Rightarrow> os_error + string list \<times> filesystem" where
  "open_w fs path =
     (let target = (case fmlookup (symlinks fs) path of None \<Rightarrow> path | Some t \<Rightarrow> t)
      in case entry_error fs target of
           Some e \<Rightarrow> Inl e
         | None \<Rightarrow>
             if (if isfile fs target then target \<in> readonly fs
                 else dirname target \<in> readonly fs)
             then Inl EACCES
             else Inr (if target = path then [path] else [path, target],
                       fs\<lparr>files := fmupd path [] (fmupd target [] (files fs)),
                          symlinks := fmdrop path (symlinks fs)\<rparr>))"

definition write_handle :: "filesystem \<Rightarrow> string list \<Rightarrow> string \<Rightarrow> filesystem" where
  "write_handle fs handle text = fs\<lparr>files := foldr (\<lambda>p. fmupd p text) handle (files fs)\<rparr>"

subsection \<open>\<^verbatim>\<open>get_filename\<close>\<close>

text \<open>
  \<^verbatim>\<open>
  def get_filename(name):
      if not os.path.isfile(name):
          return name
      rootname = name
      num = 1
      while 1:
          name = '#{}.{}#'.format(rootname, num)
          if os.path.isfile(name):
              num += 1
          else:
              os.rename(rootname, name)
              break
      return rootname
  \<close>
\<close>

definition backup_name :: "string \<Rightarrow> nat \<Rightarrow> string" where
  "backup_name rootname num = ''#'' @ rootname @ ''.'' @ str_nat num @ ''#''"

function get_filename_loop :: "filesystem \<Rightarrow> string \<Rightarrow> nat \<Rightarrow> os_error + filesystem" where
  "get_filename_loop fs rootname num =
     (let name = backup_name rootname num
      in if isfile fs name then get_filename_loop fs rootname (num + 1)
         else os_rename fs rootname name)"
  by pat_completeness auto

text \<open>
  The loop ends because the file system holds finitely many files and the backup names of
  different numbers differ: reading a decimal numeral back gives the number.
\<close>

definition digit_val :: "char \<Rightarrow> nat" where
  "digit_val c = (of_char c :: nat) - 48"

definition nat_str :: "string \<Rightarrow> nat" where
  "nat_str s = foldl (\<lambda>a c. 10 * a + digit_val c) 0 s"

lemma digit_val_digit: "d < 10 \<Longrightarrow> digit_val (''0123456789'' ! d) = d"
proof -
  assume "d < 10"
  then have "d \<in> {0, 1, 2, 3, 4, 5, 6, 7, 8, 9}" by auto
  then show ?thesis by (auto simp: digit_val_def)
qed

lemma nat_str_str_nat: "nat_str (str_nat n) = n"
proof (induction n rule: str_nat.induct)
  case (1 n)
  show ?case
  proof (cases "n < 10")
    case True
    then show ?thesis
      by (subst str_nat.simps) (simp add: nat_str_def digit_val_digit)
  next
    case False
    have "nat_str (str_nat n) =
          10 * nat_str (str_nat (n div 10)) + digit_val (''0123456789'' ! (n mod 10))"
      using False by (subst str_nat.simps) (simp add: nat_str_def)
    also have "\<dots> = 10 * (n div 10) + n mod 10"
      using 1 False by (simp add: digit_val_digit)
    finally show ?thesis by simp
  qed
qed

lemma str_nat_inj: "str_nat m = str_nat n \<Longrightarrow> m = n"
  by (metis nat_str_str_nat)

lemma backup_name_inj: "backup_name r m = backup_name r n \<Longrightarrow> m = n"
  by (simp add: backup_name_def str_nat_inj)

lemma finite_backups: "finite {n. isfile fs (backup_name r n)}"
proof -
  have "{n. isfile fs (backup_name r n)} = backup_name r -` fmdom' (files fs)"
    by (auto simp: isfile_def fmlookup_dom'_iff)
  moreover have "inj (backup_name r)"
    by (rule injI) (rule backup_name_inj)
  ultimately show ?thesis
    by (simp add: finite_vimageI)
qed

termination get_filename_loop
proof (relation "measure (\<lambda>(fs, r, num). card {n. num \<le> n \<and> isfile fs (backup_name r n)})")
  show "wf (measure (\<lambda>(fs, r, num). card {n. num \<le> n \<and> isfile fs (backup_name r n)}))"
    by simp
next
  fix fs rootname num x
  assume x: "x = backup_name rootname num" and f: "isfile fs x"
  let ?A = "{n. num + 1 \<le> n \<and> isfile fs (backup_name rootname n)}"
  let ?B = "{n. num \<le> n \<and> isfile fs (backup_name rootname n)}"
  have fin: "finite ?B"
    by (rule finite_subset [OF _ finite_backups [of fs rootname]]) auto
  have "num \<in> ?B" "num \<notin> ?A" "?A \<subseteq> ?B" using x f by auto
  then have "?A \<subset> ?B" by blast
  then have "card ?A < card ?B" using fin by (rule psubset_card_mono [rotated])
  then show "((fs, rootname, num + 1), (fs, rootname, num))
       \<in> measure (\<lambda>(fs, r, num). card {n. num \<le> n \<and> isfile fs (backup_name r n)})"
    by simp
qed

declare get_filename_loop.simps [simp del]

definition get_filename :: "filesystem \<Rightarrow> string \<Rightarrow> os_error + string \<times> filesystem" where
  "get_filename fs name =
     (if \<not> isfile fs name then Inr (name, fs)
      else case get_filename_loop fs name 1 of
             Inl e \<Rightarrow> Inl e
           | Inr fs' \<Rightarrow> Inr (name, fs'))"

subsection \<open>The toolkit\<close>

text \<open>
  What the script uses of the toolkit's data: a topology is a list of atoms (each with its
  index, name, element and residue) and the bonds between them; a modeller holds a
  topology and one position per atom. An atom's element may be missing (\<^verbatim>\<open>None\<close>).
\<close>

type_synonym element = string

definition hydrogen :: element where
  "hydrogen = ''H''"

type_synonym vec3 = "real \<times> real \<times> real"

record Atom =
  atom_index :: nat
  atom_name :: string
  atom_element :: "element option"
  atom_residue :: string

record Topology =
  atoms :: "Atom list"
  bonds :: "(Atom \<times> Atom) list"

record Modeller =
  topology :: Topology
  positions :: "vec3 list"

record Platform =
  getName :: string

datatype exn = Exception string | OSError os_error | IndexError | TypeError | AttributeError

datatype parser = PDBFile | PDBxFile

text \<open>
  \<^verbatim>\<open>random.seed(cmd.seed)\<close> puts the generator in the state that the seed determines.
\<close>

datatype random_state = Seeded int

text \<open>
  The routines of the toolkit, as functions of their arguments and of the state of the
  seeded generator; each may raise. A parser gets the text of the file it is to read.
\<close>

record 'ff toolkit =
  getPlatformByName :: "string \<Rightarrow> exn + Platform"
  parse :: "parser \<Rightarrow> random_state \<Rightarrow> string \<Rightarrow> exn + Topology \<times> vec3 list"
  ForceField :: "random_state \<Rightarrow> string \<Rightarrow> exn + 'ff"
  addHydrogens :: "random_state \<Rightarrow> 'ff \<Rightarrow> real \<Rightarrow> Modeller \<Rightarrow> exn + Modeller"
  writeFile :: "random_state \<Rightarrow> Topology \<Rightarrow> vec3 list \<Rightarrow> exn + string"

text \<open>
  \<^verbatim>\<open>Modeller.delete(toDelete)\<close> for a list of atoms: the atoms that are not in the list are
  added to a new topology in their order (which numbers them from 0), each with a copy of
  the position at its old index, and a bond is kept when both of its atoms are.
\<close>

definition Modeller_delete :: "Modeller \<Rightarrow> Atom list \<Rightarrow> exn + Modeller" where
  "Modeller_delete m toDelete =
     (let kept = filter (\<lambda>atom. atom \<notin> set toDelete) (atoms (topology m));
          new = map (\<lambda>(i, atom). atom\<lparr>atom_index := i\<rparr>) (enumerate 0 kept);
          newAtoms = map_of (zip kept new)
      in if list_ex (\<lambda>atom. length (positions m) \<le> atom_index atom) kept then Inl IndexError
         else Inr \<lparr>topology =
                    \<lparr>atoms = new,
                     bonds = concat (map (\<lambda>(a, b).
                               case (newAtoms a, newAtoms b) of
                                 (Some a', Some b') \<Rightarrow> [(a', b')]
                               | _ \<Rightarrow> []) (bonds (topology m)))\<rparr>,
                   positions = map (\<lambda>atom. positions m ! atom_index atom) kept\<rparr>)"

subsection \<open>The script\<close>

text \<open>
  The command line after \<^verbatim>\<open>argparse\<close> has read it: the positional argument, and each
  option with its value when it was given.
\<close>

record argv =
  arg_structure :: string
  arg_output :: "string option"
  arg_forcefield :: "string option"
  arg_platform :: "string option"
  arg_seed :: "int option"

text \<open>
  The namespace \<^verbatim>\<open>cmd\<close>. Its attribute \<^verbatim>\<open>platform\<close> holds \<^verbatim>\<open>None\<close>, the string from the
  command line, or a platform object.
\<close>

datatype py_platform = PyNone | PyStr string | PyPlatform Platform

record namespace =
  cmd_structure :: string
  cmd_output :: "string option"
  cmd_forcefield :: string
  cmd_platform :: py_platform
  cmd_seed :: int

definition parse_args :: "argv \<Rightarrow> namespace" where
  "parse_args a =
     \<lparr>cmd_structure = arg_structure a,
      cmd_output = arg_output a,
      cmd_forcefield = (case arg_forcefield a of None \<Rightarrow> ''amber99sbildn.xml'' | Some f \<Rightarrow> f),
      cmd_platform = (case arg_platform a of None \<Rightarrow> PyNone | Some p \<Rightarrow> PyStr p),
      cmd_seed = (case arg_seed a of None \<Rightarrow> 917 | Some n \<Rightarrow> n)\<rparr>"

datatype level = INFO | ERROR

datatype status = Completed | SysExit nat | Raised exn

record state =
  cmd :: namespace
  rng :: "random_state option"
  properties :: "string \<rightharpoonup> string"
  filesys :: filesystem
  logged :: "(level \<times> string) list"
  modeller :: "Modeller option"

definition logging :: "level \<Rightarrow> string \<Rightarrow> state \<Rightarrow> state" where
  "logging lvl msg st = st\<lparr>logged := logged st @ [(lvl, msg)]\<rparr>"

text \<open>
  \<^verbatim>\<open>
  if cmd.platform is not None:
      cmd.platform = mm.Platform.getPlatformByName(cmd.platform)
  \<close>
\<close>

definition resolve_platform :: "'ff toolkit \<Rightarrow> state \<Rightarrow> exn + state" where
  "resolve_platform tk st =
     (case cmd_platform (cmd st) of
        PyNone \<Rightarrow> Inr st
      | PyStr s \<Rightarrow>
          (case getPlatformByName tk s of
             Inl e \<Rightarrow> Inl e
           | Inr p \<Rightarrow> Inr (st\<lparr>cmd := (cmd st)\<lparr>cmd_platform := PyPlatform p\<rparr>\<rparr>))
      | PyPlatform p \<Rightarrow> Inl TypeError)"

definition log_start :: "state \<Rightarrow> state" where
  "log_start st =
     (logging INFO (''  random seed: '' @ str_int (cmd_seed (cmd st)))
     (logging INFO (''  force field: '' @ cmd_forcefield (cmd st))
     (logging INFO (''  initial structure: '' @ cmd_structure (cmd st))
     (logging INFO ''Using:''
     (logging INFO ''Started'' st)))))"

text \<open>
  The properties of a platform of a given name, from the dictionary \<open>props\<close> that
  \<^verbatim>\<open>properties\<close> holds before and the environment (\<^verbatim>\<open>os.getenv\<close> gives \<^verbatim>\<open>None\<close> for a
  variable that is not set):
  \<^verbatim>\<open>
  if platform_name == 'CUDA':
      properties = {'CudaPrecision': 'mixed'}
      gpu_ids = os.getenv('CUDA_VISIBLE_DEVICES')
      if gpu_ids:
          properties['DeviceIndex'] = gpu_ids
  elif platform_name == 'CPU':
      cpu_threads = os.getenv('SLURM_CPUS_PER_TASK')
      if cpu_threads:
          properties['Threads'] = cpu_threads
  \<close>
\<close>

definition platform_properties ::
  "(string \<rightharpoonup> string) \<Rightarrow> (string \<rightharpoonup> string) \<Rightarrow> string \<Rightarrow> (string \<rightharpoonup> string)" where
  "platform_properties getenv props platform_name =
     (if platform_name = ''CUDA'' then
        (case getenv ''CUDA_VISIBLE_DEVICES'' of
           None \<Rightarrow> [''CudaPrecision'' \<mapsto> ''mixed'']
         | Some gpu_ids \<Rightarrow>
             if gpu_ids \<noteq> [] then [''CudaPrecision'' \<mapsto> ''mixed'', ''DeviceIndex'' \<mapsto> gpu_ids]
             else [''CudaPrecision'' \<mapsto> ''mixed''])
      else if platform_name = ''CPU'' then
        (case getenv ''SLURM_CPUS_PER_TASK'' of
           None \<Rightarrow> props
         | Some cpu_threads \<Rightarrow>
             if cpu_threads \<noteq> [] then props(''Threads'' \<mapsto> cpu_threads)
             else props)
      else props)"

text \<open>
  \<^verbatim>\<open>properties = {}\<close>, then \<^verbatim>\<open>if cmd.platform:\<close> with the truth value of each kind of
  object; a string has no \<^verbatim>\<open>getName\<close>.
\<close>

definition set_properties :: "(string \<rightharpoonup> string) \<Rightarrow> state \<Rightarrow> exn + state" where
  "set_properties getenv st =
     (let st = st\<lparr>properties := Map.empty\<rparr>
      in case cmd_platform (cmd st) of
           PyNone \<Rightarrow> Inr st
         | PyStr s \<Rightarrow> if s = [] then Inr st else Inl AttributeError
         | PyPlatform p \<Rightarrow>
             (let platform_name = getName p;
                  st = logging INFO (''  platform: '' @ platform_name) st
              in Inr (st\<lparr>properties :=
                         platform_properties getenv (properties st) platform_name\<rparr>)))"

text \<open>
  \<^verbatim>\<open>
  if fext == '.pdb':   parser = app.PDBFile
  elif fext == '.cif': parser = app.PDBxFile
  else: logging.error(...); sys.exit(1)
  \<close>
  \<open>None\<close> is the last branch.
\<close>

definition select_parser :: "string \<Rightarrow> parser option" where
  "select_parser fext =
     (if fext = ''.pdb'' then Some PDBFile
      else if fext = ''.cif'' then Some PDBxFile
      else None)"

text \<open>
  Reading the structure: the parser opens the file at \<^verbatim>\<open>cmd.structure\<close>.
  \<^verbatim>\<open>
  structure = parser(cmd.structure)
  forcefield = app.ForceField(cmd.forcefield)
  modeller = app.Modeller(structure.topology, structure.positions)
  \<close>
\<close>

definition read_structure ::
  "'ff toolkit \<Rightarrow> parser \<Rightarrow> random_state \<Rightarrow> string option \<Rightarrow> string \<Rightarrow> exn + 'ff \<times> Modeller" where
  "read_structure tk p r content ffname =
     (case content of
        None \<Rightarrow> Inl (OSError ENOENT)
      | Some text \<Rightarrow>
          (case parse tk p r text of
             Inl e \<Rightarrow> Inl e
           | Inr (tpl, coords) \<Rightarrow>
               (case ForceField tk r ffname of
                  Inl e \<Rightarrow> Inl e
                | Inr ff \<Rightarrow> Inr (ff, \<lparr>topology = tpl, positions = coords\<rparr>))))"

text \<open>
  \<^verbatim>\<open>
  hydrogens = [a for a in modeller.topology.atoms() if a.element == _elem_H]
  modeller.delete(hydrogens)
  modeller.addHydrogens(forcefield=forcefield, pH=7.0)
  \<close>
\<close>

definition hydrogens :: "Modeller \<Rightarrow> Atom list" where
  "hydrogens m = filter (\<lambda>a. atom_element a = Some hydrogen) (atoms (topology m))"

definition normalize_hydrogens ::
  "'ff toolkit \<Rightarrow> random_state \<Rightarrow> 'ff \<Rightarrow> Modeller \<Rightarrow> exn + Modeller" where
  "normalize_hydrogens tk r ff m =
     (case Modeller_delete m (hydrogens m) of
        Inl e \<Rightarrow> Inl e
      | Inr m' \<Rightarrow> addHydrogens tk r ff 7 m')"

text \<open>
  \<^verbatim>\<open>
  if cmd.output:
      if not cmd.output.endswith('.cif'): _fname = cmd.output + '.cif'
      else:                               _fname = cmd.output
  else:
      _fname = fname + '_H' + '.cif'
  \<close>
  \<^verbatim>\<open>None\<close> and the empty string are both false.
\<close>

definition output_fname :: "string option \<Rightarrow> string \<Rightarrow> string" where
  "output_fname out fname =
     (case out of
        None \<Rightarrow> fname @ ''_H'' @ ''.cif''
      | Some s \<Rightarrow>
          if s \<noteq> [] then (if \<not> endswith s ''.cif'' then s @ ''.cif'' else s)
          else fname @ ''_H'' @ ''.cif'')"

text \<open>
  \<^verbatim>\<open>
  cif_fname = get_filename(_fname)
  logging.info('Writing structure to \'{}\''.format(cif_fname))
  with open(cif_fname, 'w') as handle:
      app.PDBxFile.writeFile(modeller.topology, modeller.positions, handle)
  \<close>
  When the writer raises, the file that \<^verbatim>\<open>open\<close> created stays, here with nothing in it.
\<close>

definition write_structure ::
  "'ff toolkit \<Rightarrow> random_state \<Rightarrow> string \<Rightarrow> Modeller \<Rightarrow> state \<Rightarrow> status \<times> state" where
  "write_structure tk r fname m st =
     (let fname' = output_fname (cmd_output (cmd st)) fname
      in case get_filename (filesys st) fname' of
           Inl e \<Rightarrow> (Raised (OSError e), st)
         | Inr (cif_fname, fs') \<Rightarrow>
             (let st = st\<lparr>filesys := fs'\<rparr>;
                  st = logging INFO
                         (''Writing structure to '' @ [CHR 0x27] @ cif_fname @ [CHR 0x27]) st
              in case open_w (filesys st) cif_fname of
                   Inl e \<Rightarrow> (Raised (OSError e), st)
                 | Inr (handle, fs'') \<Rightarrow>
                     (case writeFile tk r (topology m) (positions m) of
                        Inl e \<Rightarrow> (Raised e, st\<lparr>filesys := fs''\<rparr>)
                      | Inr text \<Rightarrow>
                          (Completed, st\<lparr>filesys := write_handle fs'' handle text\<rparr>))))"

text \<open>The statements from the choice of the parser to the end of the script.\<close>

definition build ::
  "'ff toolkit \<Rightarrow> random_state \<Rightarrow> parser \<Rightarrow> string \<Rightarrow> state \<Rightarrow> status \<times> state" where
  "build tk r p fname st =
     (case read_structure tk p r (fmlookup (files (filesys st)) (cmd_structure (cmd st)))
             (cmd_forcefield (cmd st)) of
        Inl e \<Rightarrow> (Raised e, st)
      | Inr (ff, m) \<Rightarrow>
          (let st = st\<lparr>modeller := Some m\<rparr>;
               st = logging INFO ''Removing and re-adding hydrogen atoms'' st
           in case normalize_hydrogens tk r ff m of
                Inl e \<Rightarrow> (Raised e, st)
              | Inr m' \<Rightarrow> write_structure tk r fname m' (st\<lparr>modeller := Some m'\<rparr>)))"

text \<open>
  The choice of the parser, and what follows it:
  \<^verbatim>\<open>
  fname, fext = os.path.splitext(cmd.structure)
  if fext == '.pdb':   parser = app.PDBFile
  elif fext == '.cif': parser = app.PDBxFile
  else:
      logging.error('Format not supported: must be \'.pdb\' or \'.cif\'')
      sys.exit(1)
  \<close>
\<close>

definition format_error :: string where
  "format_error = ''Format not supported: must be '' @ [CHR 0x27] @ ''.pdb'' @ [CHR 0x27]
                  @ '' or '' @ [CHR 0x27] @ ''.cif'' @ [CHR 0x27]"

definition dispatch :: "'ff toolkit \<Rightarrow> random_state \<Rightarrow> state \<Rightarrow> status \<times> state" where
  "dispatch tk r st =
     (let (fname, fext) = splitext (cmd_structure (cmd st))
      in case select_parser fext of
           None \<Rightarrow> (SysExit 1, logging ERROR format_error st)
         | Some p \<Rightarrow> build tk r p fname st)"

text \<open>The whole script, from the parsed command line, the environment and the file system.\<close>

definition buildSystem ::
  "'ff toolkit \<Rightarrow> (string \<rightharpoonup> string) \<Rightarrow> filesystem \<Rightarrow> argv \<Rightarrow> status \<times> state" where
  "buildSystem tk getenv fs a =
     (let st = \<lparr>cmd = parse_args a, rng = None, properties = Map.empty, filesys = fs,
                logged = [], modeller = None\<rparr>;
          r = Seeded (cmd_seed (cmd st));
          st = st\<lparr>rng := Some r\<rparr>
      in case resolve_platform tk st of
           Inl e \<Rightarrow> (Raised e, st)
         | Inr st \<Rightarrow>
             (let st = log_start st
              in case set_properties getenv st of
                   Inl e \<Rightarrow> (Raised e, st)
                 | Inr st \<Rightarrow> dispatch tk r st))"

text \<open>The platform, when one is asked for, is found by the toolkit.\<close>

definition platform_resolves :: "'ff toolkit \<Rightarrow> argv \<Rightarrow> bool" where
  "platform_resolves tk a =
     (case arg_platform a of
        None \<Rightarrow> True
      | Some s \<Rightarrow> (case getPlatformByName tk s of Inl e \<Rightarrow> False | Inr p \<Rightarrow> True))"

text \<open>
  What \<^verbatim>\<open>cmd.platform\<close> holds once the script is past the lookup: the object that was found;
  the string stays when the lookup raises.
\<close>

definition resolved_platform :: "'ff toolkit \<Rightarrow> argv \<Rightarrow> py_platform" where
  "resolved_platform tk a =
     (case arg_platform a of
        None \<Rightarrow> PyNone
      | Some s \<Rightarrow> (case getPlatformByName tk s of Inl e \<Rightarrow> PyStr s | Inr p \<Rightarrow> PyPlatform p))"

text \<open>
  Two states that differ at most in \<^verbatim>\<open>cmd.platform\<close>, the properties and the log.
\<close>

definition same_inputs :: "state \<Rightarrow> state \<Rightarrow> bool" where
  "same_inputs st st' =
     (filesys st = filesys st' \<and> modeller st = modeller st' \<and> rng st = rng st' \<and>
      cmd_structure (cmd st) = cmd_structure (cmd st') \<and>
      cmd_output (cmd st) = cmd_output (cmd st') \<and>
      cmd_forcefield (cmd st) = cmd_forcefield (cmd st') \<and>
      cmd_seed (cmd st) = cmd_seed (cmd st'))"

subsection \<open>A small toolkit for concrete runs\<close>

text \<open>
  A toolkit that knows four platforms, reads one atom per character of the file (the
  character is its element), loads any force field, adds one hydrogen, and writes the
  names of the atoms.
\<close>

definition stub_toolkit :: "string toolkit" where
  "stub_toolkit =
     \<lparr>getPlatformByName =
        (\<lambda>s. if s \<in> {''Reference'', ''CPU'', ''CUDA'', ''OpenCL''}
              then Inr \<lparr>getName = s\<rparr> else Inl (Exception ''no such platform'')),
      parse =
        (\<lambda>p r text.
           Inr (\<lparr>atoms = map (\<lambda>(i, c). \<lparr>atom_index = i, atom_name = [c],
                                           atom_element = Some [c], atom_residue = ''ALA''\<rparr>)
                               (enumerate 0 text),
                 bonds = []\<rparr>,
                map (\<lambda>(i, c). (real i, 0, 0)) (enumerate 0 text))),
      ForceField = (\<lambda>r ffname. Inr ffname),
      addHydrogens =
        (\<lambda>r ff pH m.
           Inr (m\<lparr>topology := (topology m)\<lparr>atoms := atoms (topology m) @
                     [\<lparr>atom_index = length (atoms (topology m)), atom_name = ''H1'',
                       atom_element = Some hydrogen, atom_residue = ''ALA''\<rparr>]\<rparr>,
                  positions := positions m @ [(0, 1, 0)]\<rparr>)),
      writeFile = (\<lambda>r t ps. Inr (concat (map atom_name (atoms t))))\<rparr>"

definition stub_fs :: filesystem where
  "stub_fs = \<lparr>files = fmupd ''foo.pdb'' ''NHC'' fmempty, dirs = {},
               symlinks = fmempty, readonly = {}\<rparr>"

text \<open>
  The file system after a first run on \<open>data/foo.pdb\<close> without \<^verbatim>\<open>--output\<close>: the output
  \<open>data/foo_H.cif\<close> is there.
\<close>

definition second_run_fs :: filesystem where
  "second_run_fs =
     \<lparr>files = fmupd ''data/foo_H.cif'' ''NCH1'' (fmupd ''data/foo.pdb'' ''NHC'' fmempty),
      dirs = {''data''}, symlinks = fmempty, readonly = {}\<rparr>"

definition stub_argv :: "string \<Rightarrow> string option \<Rightarrow> argv" where
  "stub_argv path plat =
     \<lparr>arg_structure = path, arg_output = None, arg_forcefield = None,
      arg_platform = plat, arg_seed = None\<rparr>"

definition stub_atom :: "nat \<Rightarrow> string \<Rightarrow> element \<Rightarrow> Atom" where
  "stub_atom i nm el =
     \<lparr>atom_index = i, atom_name = nm, atom_element = Some el, atom_residue = ''ALA''\<rparr>"

definition stub_modeller :: Modeller where
  "stub_modeller =
     \<lparr>topology =
        \<lparr>atoms = [stub_atom 0 ''N'' ''N'', stub_atom 1 ''H'' ''H'', stub_atom 2 ''CA'' ''C''],
         bonds = [(stub_atom 0 ''N'' ''N'', stub_atom 1 ''H'' ''H''),
                  (stub_atom 0 ''N'' ''N'', stub_atom 2 ''CA'' ''C'')]\<rparr>,
      positions = [(0, 0, 0), (1, 0, 0), (2, 0, 0)]\<rparr>"

lemmas script_defs = buildSystem_def dispatch_def build_def write_structure_def
  read_structure_def normalize_hydrogens_def Modeller_delete_def hydrogens_def hydrogen_def
  output_fname_def select_parser_def set_properties_def platform_properties_def log_start_def
  resolve_platform_def logging_def parse_args_def get_filename_def open_w_def
  write_handle_def isfile_def parent_exists_def dirname_def rfind_def rstrip_def splitext_def
  endswith_def os_rename_def backup_name_def str_int_def format_error_def
  entry_error_def basename_def PATH_MAX_def NAME_MAX_def
  platform_resolves_def splitext_loop.simps str_nat.simps get_filename_loop.simps

lemmas stub_defs = stub_toolkit_def stub_fs_def stub_argv_def second_run_fs_def

section \<open>Properties\<close>

subsection \<open>The backup of an existing file\<close>

lemma get_filename_loop_least:
  "\<exists>n. num \<le> n \<and> \<not> isfile fs (backup_name r n) \<and>
       (\<forall>m. num \<le> m \<and> m < n \<longrightarrow> isfile fs (backup_name r m)) \<and>
       get_filename_loop fs r num = os_rename fs r (backup_name r n)"
proof (induction fs r num rule: get_filename_loop.induct)
  case (1 fs rootname num)
  show ?case
  proof (cases "isfile fs (backup_name rootname num)")
    case False
    then have "get_filename_loop fs rootname num = os_rename fs rootname (backup_name rootname num)"
      by (subst get_filename_loop.simps) simp
    with False show ?thesis
      by (intro exI [of _ num]) auto
  next
    case True
    from 1 [OF refl True] obtain n where n: "num + 1 \<le> n" "\<not> isfile fs (backup_name rootname n)"
      "\<forall>m. num + 1 \<le> m \<and> m < n \<longrightarrow> isfile fs (backup_name rootname m)"
      "get_filename_loop fs rootname (num + 1) = os_rename fs rootname (backup_name rootname n)"
      by blast
    have step: "get_filename_loop fs rootname num = get_filename_loop fs rootname (num + 1)"
      using True by (subst get_filename_loop.simps) simp
    have "\<forall>m. num \<le> m \<and> m < n \<longrightarrow> isfile fs (backup_name rootname m)"
    proof (intro allI impI)
      fix m assume m: "num \<le> m \<and> m < n"
      show "isfile fs (backup_name rootname m)"
      proof (cases "m = num")
        case True
        with \<open>isfile fs (backup_name rootname num)\<close> show ?thesis by simp
      next
        case False
        with m have "num + 1 \<le> m \<and> m < n" by simp
        with n(3) show ?thesis by blast
      qed
    qed
    with n step show ?thesis
      by (intro exI [of _ n]) simp
  qed
qed

text \<open>
  What \<open>get_filename\<close> does, for every file system and every name. When no file is at
  \<open>name\<close>, it returns the name and changes nothing. When a file is there, the probing ends,
  at the smallest \<open>n\<close> from 1 on whose backup name is not a file, and \<open>get_filename\<close> is the
  one call \<^verbatim>\<open>os.rename(name, '#name.n#')\<close>: it returns \<open>name\<close> when the rename succeeds, and
  raises what the rename raises.
\<close>

lemma get_filename_result:
  "(\<not> isfile fs name \<longrightarrow> get_filename fs name = Inr (name, fs)) \<and>
   (isfile fs name \<longrightarrow>
      (\<exists>n. 1 \<le> n \<and> \<not> isfile fs (backup_name name n) \<and>
           (\<forall>m. 1 \<le> m \<and> m < n \<longrightarrow> isfile fs (backup_name name m)) \<and>
           get_filename fs name =
             (case os_rename fs name (backup_name name n) of
                Inl e \<Rightarrow> Inl e
              | Inr fs' \<Rightarrow> Inr (name, fs'))))"
proof (intro conjI impI)
  assume "\<not> isfile fs name"
  then show "get_filename fs name = Inr (name, fs)"
    by (simp add: get_filename_def)
next
  assume ex: "isfile fs name"
  obtain n where n: "1 \<le> n" "\<not> isfile fs (backup_name name n)"
      "\<forall>m. 1 \<le> m \<and> m < n \<longrightarrow> isfile fs (backup_name name m)"
      "get_filename_loop fs name 1 = os_rename fs name (backup_name name n)"
    using get_filename_loop_least [of 1 fs name] by blast
  have "get_filename fs name =
          (case os_rename fs name (backup_name name n) of
             Inl e \<Rightarrow> Inl e
           | Inr fs' \<Rightarrow> Inr (name, fs'))"
    using ex n(4) by (simp add: get_filename_def)
  with n(1,2,3) show "\<exists>n. 1 \<le> n \<and> \<not> isfile fs (backup_name name n) \<and>
           (\<forall>m. 1 \<le> m \<and> m < n \<longrightarrow> isfile fs (backup_name name m)) \<and>
           get_filename fs name =
             (case os_rename fs name (backup_name name n) of
                Inl e \<Rightarrow> Inl e
              | Inr fs' \<Rightarrow> Inr (name, fs'))"
    by blast
qed

text \<open>
  Where the name has no directory part the backup works: with \<open>a.cif\<close> and \<open>#a.cif.1#\<close>
  there, \<open>a.cif\<close> becomes \<open>#a.cif.2#\<close> and \<open>#a.cif.1#\<close> stays.
\<close>

lemma get_filename_third_run:
  "get_filename
     \<lparr>files = fmupd ''a.cif'' ''new'' (fmupd ''#a.cif.1#'' ''old'' fmempty), dirs = {},
      symlinks = fmempty, readonly = {}\<rparr> ''a.cif''
   = Inr (''a.cif'',
          \<lparr>files = fmupd ''#a.cif.2#'' ''new''
                     (fmdrop ''a.cif'' (fmupd ''a.cif'' ''new'' (fmupd ''#a.cif.1#'' ''old'' fmempty))),
           dirs = {}, symlinks = fmempty, readonly = {}\<rparr>)"
  by (simp add: get_filename_def isfile_def get_filename_loop.simps backup_name_def
        str_nat.simps os_rename_def entry_error_def parent_exists_def dirname_def rfind_def
        basename_def PATH_MAX_def NAME_MAX_def)

text \<open>
  Claim C1 says that for every output path at which a file exists, \<open>get_filename\<close> renames
  that file to the first unused backup name \<open>#path.n#\<close> and returns the path. The code
  does not, for a path with a directory part. The backup name of \<open>out/foo.cif\<close> is
  \<open>#out/foo.cif.1#\<close>: the \<open>#\<close> goes before the directory, not before the name of the file,
  so the backup is to be a file in a directory \<open>#out\<close>. That directory does not exist,
  \<^verbatim>\<open>os.rename\<close> raises and \<open>get_filename\<close> returns nothing. The output path that the script
  derives by itself has the directory of the input: a second run of the script on
  \<open>data/foo.pdb\<close> finds the \<open>data/foo_H.cif\<close> of the first run, raises, and writes nothing.
\<close>

theorem get_filename_missing_directory:
  "isfile \<lparr>files = fmupd ''out/foo.cif'' ''old'' fmempty, dirs = {''out''},
           symlinks = fmempty, readonly = {}\<rparr> ''out/foo.cif'' \<and>
   backup_name ''out/foo.cif'' 1 = ''#out/foo.cif.1#'' \<and>
   dirname ''#out/foo.cif.1#'' = ''#out'' \<and>
   get_filename \<lparr>files = fmupd ''out/foo.cif'' ''old'' fmempty, dirs = {''out''},
                  symlinks = fmempty, readonly = {}\<rparr> ''out/foo.cif''
     = Inl ENOENT \<and>
   output_fname None (fst (splitext ''data/foo.pdb'')) = ''data/foo_H.cif'' \<and>
   fst (buildSystem stub_toolkit Map.empty second_run_fs (stub_argv ''data/foo.pdb'' None))
     = Raised (OSError ENOENT) \<and>
   filesys (snd (buildSystem stub_toolkit Map.empty second_run_fs (stub_argv ''data/foo.pdb'' None)))
     = second_run_fs"
  by (simp add: script_defs stub_defs Let_def)

subsection \<open>The output name\<close>

lemma endswith_append: "endswith (s @ e) suffix \<Longrightarrow> length e = length suffix \<Longrightarrow> e = suffix"
  by (simp add: endswith_def)

text \<open>
  Claim C4, as the code has it. With input \<open>foo.pdb\<close> and no \<^verbatim>\<open>--output\<close> the name is
  \<open>foo_H.cif\<close>; \<^verbatim>\<open>--output bar\<close> gives \<open>bar.cif\<close> and \<^verbatim>\<open>--output bar.cif\<close> gives \<open>bar.cif\<close>. For
  every value of \<^verbatim>\<open>--output\<close> that is not empty, \<open>.cif\<close> is appended exactly when the value
  does not end in \<open>.cif\<close>. An empty value counts as no value: the name comes from the input.
\<close>

theorem output_fname_derivation:
  "output_fname None (fst (splitext ''foo.pdb'')) = ''foo_H.cif'' \<and>
   output_fname (Some ''bar'') fname = ''bar.cif'' \<and>
   output_fname (Some ''bar.cif'') fname = ''bar.cif'' \<and>
   output_fname None fname = fname @ ''_H.cif'' \<and>
   output_fname (Some []) fname = fname @ ''_H.cif'' \<and>
   (s \<noteq> [] \<longrightarrow> output_fname (Some s) fname = (if endswith s ''.cif'' then s else s @ ''.cif''))"
  by (simp add: output_fname_def endswith_def splitext_def rfind_def splitext_loop.simps)

theorem output_fname_derivation_witness:
  "''out/run1'' \<noteq> [] \<and> \<not> endswith ''out/run1'' ''.cif'' \<and>
   output_fname (Some ''out/run1'') ''foo'' = ''out/run1.cif''"
  using output_fname_derivation [of "''foo''" "''out/run1''"]
  by (simp add: endswith_def)

text \<open>
  Claim C4 as it is stated fails for \<^verbatim>\<open>--output ''\<close>: the value does not end in \<open>.cif\<close>, and
  the name is not the value with \<open>.cif\<close> appended but the one derived from the input.
\<close>

theorem output_fname_empty_output:
  "\<not> endswith [] ''.cif'' \<and> output_fname (Some []) ''foo'' \<noteq> [] @ ''.cif'' \<and>
   output_fname (Some []) ''foo'' = ''foo_H.cif''"
  by (simp add: output_fname_def endswith_def)

text \<open>
  Claim C9. The test for the suffix compares characters: a value of \<^verbatim>\<open>--output\<close> that ends
  in \<open>.cif\<close> written with at least one capital letter gets \<open>.cif\<close> appended, so \<open>bar.CIF\<close>
  becomes \<open>bar.CIF.cif\<close>.
\<close>

theorem output_fname_case_sensitive:
  assumes "e \<in> {''.CIF'', ''.CIf'', ''.CiF'', ''.Cif'', ''.cIF'', ''.cIf'', ''.ciF''}"
  shows "output_fname (Some (s @ e)) fname = s @ e @ ''.cif''"
proof -
  from assms have len: "length e = length ''.cif''" and ne: "e \<noteq> ''.cif''" and nn: "s @ e \<noteq> []"
    by auto
  have "\<not> endswith (s @ e) ''.cif''"
    using endswith_append [OF _ len] ne by blast
  with nn show ?thesis
    by (simp add: output_fname_def)
qed

theorem output_fname_case_sensitive_witness:
  "''.CIF'' \<in> {''.CIF'', ''.CIf'', ''.CiF'', ''.Cif'', ''.cIF'', ''.cIf'', ''.ciF''} \<and>
   output_fname (Some ''bar.CIF'') ''foo'' = ''bar.CIF.cif''"
  using output_fname_case_sensitive [of "''.CIF''" "''bar''" "''foo''"]
  by simp

subsection \<open>Hydrogens\<close>

lemma element_renumbered:
  "map atom_element (map (\<lambda>(i, atom). atom\<lparr>atom_index := i\<rparr>) (enumerate n xs)) = map atom_element xs"
  by (induction xs arbitrary: n) auto

lemma name_renumbered:
  "map atom_name (map (\<lambda>(i, atom). atom\<lparr>atom_index := i\<rparr>) (enumerate n xs)) = map atom_name xs"
  by (induction xs arbitrary: n) auto

lemma residue_renumbered:
  "map atom_residue (map (\<lambda>(i, atom). atom\<lparr>atom_index := i\<rparr>) (enumerate n xs)) = map atom_residue xs"
  by (induction xs arbitrary: n) auto

lemma kept_not_hydrogen:
  "filter (\<lambda>atom. atom \<notin> set (hydrogens m)) (atoms (topology m)) =
   filter (\<lambda>atom. atom_element atom \<noteq> Some hydrogen) (atoms (topology m))"
  by (rule filter_cong) (auto simp: hydrogens_def)

lemma Modeller_delete_atoms:
  assumes "Modeller_delete m toDelete = Inr m'"
  shows "atoms (topology m') =
           map (\<lambda>(i, atom). atom\<lparr>atom_index := i\<rparr>)
             (enumerate 0 (filter (\<lambda>atom. atom \<notin> set toDelete) (atoms (topology m))))"
    and "positions m' =
           map (\<lambda>a. positions m ! atom_index a)
             (filter (\<lambda>atom. atom \<notin> set toDelete) (atoms (topology m)))"
  using assms
  by (auto simp: Modeller_delete_def Let_def split: if_splits)

lemma Modeller_delete_hydrogens:
  assumes "Modeller_delete m (hydrogens m) = Inr m'"
  shows "map atom_element (atoms (topology m')) =
           filter (\<lambda>e. e \<noteq> Some hydrogen) (map atom_element (atoms (topology m)))"
    and "map atom_name (atoms (topology m')) =
           map atom_name (filter (\<lambda>a. atom_element a \<noteq> Some hydrogen) (atoms (topology m)))"
    and "map atom_residue (atoms (topology m')) =
           map atom_residue (filter (\<lambda>a. atom_element a \<noteq> Some hydrogen) (atoms (topology m)))"
    and "positions m' =
           map (\<lambda>a. positions m ! atom_index a)
             (filter (\<lambda>a. atom_element a \<noteq> Some hydrogen) (atoms (topology m)))"
proof -
  note a = Modeller_delete_atoms [OF assms, unfolded kept_not_hydrogen]
  show "map atom_element (atoms (topology m')) =
           filter (\<lambda>e. e \<noteq> Some hydrogen) (map atom_element (atoms (topology m)))"
    unfolding a(1) element_renumbered by (simp add: filter_map comp_def)
  show "map atom_name (atoms (topology m')) =
           map atom_name (filter (\<lambda>a. atom_element a \<noteq> Some hydrogen) (atoms (topology m)))"
    unfolding a(1) name_renumbered by (rule refl)
  show "map atom_residue (atoms (topology m')) =
           map atom_residue (filter (\<lambda>a. atom_element a \<noteq> Some hydrogen) (atoms (topology m)))"
    unfolding a(1) residue_renumbered by (rule refl)
  show "positions m' =
           map (\<lambda>a. positions m ! atom_index a)
             (filter (\<lambda>a. atom_element a \<noteq> Some hydrogen) (atoms (topology m)))"
    by (rule a(2))
qed

lemma Modeller_delete_succeeds:
  assumes "list_all (\<lambda>a. atom_index a < length (positions m)) (atoms (topology m))"
  shows "\<exists>m'. Modeller_delete m toDelete = Inr m'"
  using assms
  by (auto simp: Modeller_delete_def Let_def list_ex_iff list_all_iff)

lemma read_structure_forcefield:
  "read_structure tk p r content ffname = Inr (ff, m) \<Longrightarrow> ForceField tk r ffname = Inr ff"
  by (auto simp: read_structure_def split: option.splits sum.splits prod.splits)

text \<open>
  Claim C2. The list \<open>hydrogens\<close> holds exactly the atoms of the topology whose element is
  hydrogen. Deleting them succeeds when every atom has a position, and leaves a topology
  with no hydrogen atom and with every other atom, in the order they had. Only then is the
  toolkit's \<^verbatim>\<open>addHydrogens\<close> called, on that topology, with pH 7 and with the force field
  that \<open>read_structure\<close> loaded: whatever hydrogen the result holds, the toolkit added.
\<close>

theorem hydrogens_deleted_then_added:
  "set (hydrogens m) = {a \<in> set (atoms (topology m)). atom_element a = Some hydrogen} \<and>
   (read_structure tk p r content ffname = Inr (ff, m) \<longrightarrow> ForceField tk r ffname = Inr ff) \<and>
   (list_all (\<lambda>a. atom_index a < length (positions m)) (atoms (topology m)) \<longrightarrow>
      (\<exists>m'. Modeller_delete m (hydrogens m) = Inr m')) \<and>
   (case Modeller_delete m (hydrogens m) of
      Inl e \<Rightarrow> normalize_hydrogens tk r ff m = Inl e
    | Inr m' \<Rightarrow>
        (\<forall>a \<in> set (atoms (topology m')). atom_element a \<noteq> Some hydrogen) \<and>
        map atom_element (atoms (topology m')) =
          filter (\<lambda>e. e \<noteq> Some hydrogen) (map atom_element (atoms (topology m))) \<and>
        map atom_name (atoms (topology m')) =
          map atom_name (filter (\<lambda>a. atom_element a \<noteq> Some hydrogen) (atoms (topology m))) \<and>
        normalize_hydrogens tk r ff m = addHydrogens tk r ff 7 m')"
proof (intro conjI)
  show "set (hydrogens m) = {a \<in> set (atoms (topology m)). atom_element a = Some hydrogen}"
    by (auto simp: hydrogens_def)
  show "read_structure tk p r content ffname = Inr (ff, m) \<longrightarrow> ForceField tk r ffname = Inr ff"
    by (rule impI) (rule read_structure_forcefield)
  show "list_all (\<lambda>a. atom_index a < length (positions m)) (atoms (topology m)) \<longrightarrow>
      (\<exists>m'. Modeller_delete m (hydrogens m) = Inr m')"
    using Modeller_delete_succeeds by blast
  show "case Modeller_delete m (hydrogens m) of
      Inl e \<Rightarrow> normalize_hydrogens tk r ff m = Inl e
    | Inr m' \<Rightarrow>
        (\<forall>a \<in> set (atoms (topology m')). atom_element a \<noteq> Some hydrogen) \<and>
        map atom_element (atoms (topology m')) =
          filter (\<lambda>e. e \<noteq> Some hydrogen) (map atom_element (atoms (topology m))) \<and>
        map atom_name (atoms (topology m')) =
          map atom_name (filter (\<lambda>a. atom_element a \<noteq> Some hydrogen) (atoms (topology m))) \<and>
        normalize_hydrogens tk r ff m = addHydrogens tk r ff 7 m'"
  proof (cases "Modeller_delete m (hydrogens m)")
    case (Inl e)
    then show ?thesis by (simp add: normalize_hydrogens_def)
  next
    case (Inr m')
    note d = Modeller_delete_hydrogens [OF Inr]
    have "set (map atom_element (atoms (topology m'))) \<subseteq> {e. e \<noteq> Some hydrogen}"
      unfolding d(1) by auto
    then have "\<forall>a \<in> set (atoms (topology m')). atom_element a \<noteq> Some hydrogen"
      by auto
    with Inr d(1,2) show ?thesis
      by (simp add: normalize_hydrogens_def)
  qed
qed

text \<open>A modeller with the atoms N, H and CA: the hydrogen goes, N and CA stay.\<close>

theorem hydrogens_deleted_then_added_witness:
  "list_all (\<lambda>a. atom_index a < length (positions stub_modeller)) (atoms (topology stub_modeller)) \<and>
   (\<exists>m'. Modeller_delete stub_modeller (hydrogens stub_modeller) = Inr m' \<and>
         map atom_name (atoms (topology m')) = [''N'', ''CA''] \<and>
         normalize_hydrogens stub_toolkit (Seeded 917) ''ff'' stub_modeller =
           addHydrogens stub_toolkit (Seeded 917) ''ff'' 7 m')"
proof -
  have wf: "list_all (\<lambda>a. atom_index a < length (positions stub_modeller))
              (atoms (topology stub_modeller))"
    by (simp add: stub_modeller_def stub_atom_def)
  note t = hydrogens_deleted_then_added
    [where m = stub_modeller and tk = stub_toolkit and r = "Seeded 917" and ff = "''ff''"]
  from t wf obtain m' where m': "Modeller_delete stub_modeller (hydrogens stub_modeller) = Inr m'"
    by blast
  from t m' have n: "map atom_name (atoms (topology m')) =
        map atom_name (filter (\<lambda>a. atom_element a \<noteq> Some hydrogen)
                         (atoms (topology stub_modeller)))"
    and a: "normalize_hydrogens stub_toolkit (Seeded 917) ''ff'' stub_modeller =
            addHydrogens stub_toolkit (Seeded 917) ''ff'' 7 m'"
    by simp_all
  from n have nm: "map atom_name (atoms (topology m')) = [''N'', ''CA'']"
    by (simp add: stub_modeller_def stub_atom_def hydrogen_def)
  show ?thesis
    by (intro conjI exI [of _ m']) (rule wf m' nm a)+
qed

subsection \<open>The script, step by step\<close>

lemma logging_fields [simp]:
  "cmd (logging l msg st) = cmd st"
  "properties (logging l msg st) = properties st"
  "filesys (logging l msg st) = filesys st"
  "modeller (logging l msg st) = modeller st"
  "rng (logging l msg st) = rng st"
  by (simp_all add: logging_def)

lemma log_start_fields [simp]:
  "cmd (log_start st) = cmd st"
  "properties (log_start st) = properties st"
  "filesys (log_start st) = filesys st"
  "modeller (log_start st) = modeller st"
  "rng (log_start st) = rng st"
  by (simp_all add: log_start_def)

lemma write_structure_fields:
  "cmd (snd (write_structure tk r fname m st)) = cmd st"
  "properties (snd (write_structure tk r fname m st)) = properties st"
  "modeller (snd (write_structure tk r fname m st)) = modeller st"
  "rng (snd (write_structure tk r fname m st)) = rng st"
  by (auto simp: write_structure_def Let_def split: sum.splits prod.splits)

lemma build_fields:
  "cmd (snd (build tk r p fname st)) = cmd st"
  "properties (snd (build tk r p fname st)) = properties st"
  "rng (snd (build tk r p fname st)) = rng st"
  by (auto simp: build_def Let_def write_structure_fields split: sum.splits prod.splits)

lemma dispatch_fields:
  "cmd (snd (dispatch tk r st)) = cmd st"
  "properties (snd (dispatch tk r st)) = properties st"
  "rng (snd (dispatch tk r st)) = rng st"
  by (auto simp: dispatch_def Let_def build_fields split: option.splits prod.splits)

lemma buildSystem_resolved:
  assumes "platform_resolves tk a"
  shows "\<exists>st. buildSystem tk getenv fs a = dispatch tk (Seeded (cmd_seed (parse_args a))) st \<and>
              filesys st = fs \<and> modeller st = None \<and>
              rng st = Some (Seeded (cmd_seed (parse_args a))) \<and>
              cmd st = (parse_args a)\<lparr>cmd_platform := resolved_platform tk a\<rparr> \<and>
              properties st =
                (case resolved_platform tk a of
                   PyPlatform p \<Rightarrow> platform_properties getenv Map.empty (getName p)
                 | _ \<Rightarrow> Map.empty)"
proof (cases "arg_platform a")
  case None
  then show ?thesis
    apply (simp add: buildSystem_def resolve_platform_def set_properties_def
             resolved_platform_def parse_args_def Let_def)
    apply (rule exI, rule conjI, rule refl)
    apply simp
    done
next
  case (Some s)
  with assms obtain p where p: "getPlatformByName tk s = Inr p"
    by (auto simp: platform_resolves_def split: sum.splits)
  with Some show ?thesis
    apply (simp add: buildSystem_def resolve_platform_def set_properties_def
             resolved_platform_def parse_args_def Let_def)
    apply (rule exI, rule conjI, rule refl)
    apply simp
    done
qed

lemma buildSystem_unresolved:
  assumes "\<not> platform_resolves tk a"
  shows "\<exists>e st. buildSystem tk getenv fs a = (Raised e, st) \<and>
              filesys st = fs \<and> modeller st = None \<and>
              cmd st = parse_args a \<and> properties st = Map.empty \<and>
              resolved_platform tk a = cmd_platform (parse_args a)"
proof -
  from assms obtain s e where "arg_platform a = Some s" "getPlatformByName tk s = Inl e"
    by (auto simp: platform_resolves_def split: option.splits sum.splits)
  then show ?thesis
    by (simp add: buildSystem_def resolve_platform_def resolved_platform_def parse_args_def Let_def)
qed

lemma cmd_buildSystem:
  "cmd (snd (buildSystem tk getenv fs a)) = (parse_args a)\<lparr>cmd_platform := resolved_platform tk a\<rparr>"
proof (cases "platform_resolves tk a")
  case True
  from buildSystem_resolved [OF True, of getenv fs] show ?thesis
    by (auto simp: dispatch_fields)
next
  case False
  from buildSystem_unresolved [OF False, of getenv fs] show ?thesis
    by auto
qed

lemma properties_buildSystem:
  "properties (snd (buildSystem tk getenv fs a)) =
     (case resolved_platform tk a of
        PyPlatform p \<Rightarrow> platform_properties getenv Map.empty (getName p)
      | _ \<Rightarrow> Map.empty)"
proof (cases "platform_resolves tk a")
  case True
  from buildSystem_resolved [OF True, of getenv fs] show ?thesis
    by (auto simp: dispatch_fields)
next
  case False
  from buildSystem_unresolved [OF False, of getenv fs] show ?thesis
    by (auto simp: parse_args_def split: option.splits)
qed

lemma write_structure_same:
  assumes "same_inputs st st'"
  shows "fst (write_structure tk r fname m st) = fst (write_structure tk r fname m st') \<and>
         same_inputs (snd (write_structure tk r fname m st)) (snd (write_structure tk r fname m st'))"
  using assms
  by (auto simp: same_inputs_def write_structure_def Let_def split: sum.splits prod.splits)

lemma same_inputs_modeller:
  "same_inputs st st' \<Longrightarrow> same_inputs (st\<lparr>modeller := x\<rparr>) (st'\<lparr>modeller := x\<rparr>)"
  by (simp add: same_inputs_def)

lemma same_inputs_logging:
  "same_inputs st st' \<Longrightarrow> same_inputs (logging l msg st) (logging l msg st')"
  by (simp add: same_inputs_def)

lemma build_same:
  assumes "same_inputs st st'"
  shows "fst (build tk r p fname st) = fst (build tk r p fname st') \<and>
         same_inputs (snd (build tk r p fname st)) (snd (build tk r p fname st'))"
proof -
  let ?c = "read_structure tk p r (fmlookup (files (filesys st)) (cmd_structure (cmd st)))
              (cmd_forcefield (cmd st))"
  have eq: "read_structure tk p r (fmlookup (files (filesys st')) (cmd_structure (cmd st')))
              (cmd_forcefield (cmd st')) = ?c"
    using assms by (simp add: same_inputs_def)
  show ?thesis
  proof (cases ?c)
    case (Inl e)
    with eq assms show ?thesis
      by (simp add: build_def)
  next
    case (Inr x)
    obtain ff m where x: "x = (ff, m)" by (cases x)
    let ?s = "logging INFO ''Removing and re-adding hydrogen atoms'' (st\<lparr>modeller := Some m\<rparr>)"
    let ?s' = "logging INFO ''Removing and re-adding hydrogen atoms'' (st'\<lparr>modeller := Some m\<rparr>)"
    have l: "same_inputs ?s ?s'"
      by (intro same_inputs_logging same_inputs_modeller assms)
    show ?thesis
    proof (cases "normalize_hydrogens tk r ff m")
      case (Inl e)
      with Inr x eq l show ?thesis
        by (simp add: build_def Let_def)
    next
      case (Inr m')
      have "same_inputs (?s\<lparr>modeller := Some m'\<rparr>) (?s'\<lparr>modeller := Some m'\<rparr>)"
        by (rule same_inputs_modeller [OF l])
      from write_structure_same [OF this, of tk r fname m'] Inr \<open>?c = Inr x\<close> x eq
      show ?thesis
        by (simp add: build_def Let_def)
    qed
  qed
qed

lemma dispatch_same:
  assumes "same_inputs st st'"
  shows "fst (dispatch tk r st) = fst (dispatch tk r st') \<and>
         same_inputs (snd (dispatch tk r st)) (snd (dispatch tk r st'))"
proof -
  have eq: "cmd_structure (cmd st') = cmd_structure (cmd st)"
    using assms by (simp add: same_inputs_def)
  obtain fname fext where sp: "splitext (cmd_structure (cmd st)) = (fname, fext)"
    by (cases "splitext (cmd_structure (cmd st))")
  show ?thesis
  proof (cases "select_parser fext")
    case None
    with sp eq same_inputs_logging [OF assms, of ERROR format_error] show ?thesis
      by (simp add: dispatch_def)
  next
    case (Some p)
    with sp eq build_same [OF assms, of tk r p fname] show ?thesis
      by (simp add: dispatch_def)
  qed
qed

lemma build_modeller:
  "modeller (snd (build tk r p fname st)) =
     (case read_structure tk p r (fmlookup (files (filesys st)) (cmd_structure (cmd st)))
             (cmd_forcefield (cmd st)) of
        Inl e \<Rightarrow> modeller st
      | Inr (ff, m) \<Rightarrow>
          (case normalize_hydrogens tk r ff m of Inl e \<Rightarrow> Some m | Inr m' \<Rightarrow> Some m'))"
  by (auto simp: build_def Let_def write_structure_fields split: sum.splits prod.splits)

lemma dispatch_modeller:
  "modeller (snd (dispatch tk r st)) =
     (case select_parser (snd (splitext (cmd_structure (cmd st)))) of
        None \<Rightarrow> modeller st
      | Some p \<Rightarrow>
          (case read_structure tk p r (fmlookup (files (filesys st)) (cmd_structure (cmd st)))
                  (cmd_forcefield (cmd st)) of
             Inl e \<Rightarrow> modeller st
           | Inr (ff, m) \<Rightarrow>
               (case normalize_hydrogens tk r ff m of Inl e \<Rightarrow> Some m | Inr m' \<Rightarrow> Some m')))"
  by (auto simp: dispatch_def Let_def build_modeller split: option.splits prod.splits)

lemma modeller_buildSystem:
  "modeller (snd (buildSystem tk getenv fs a)) =
     (if platform_resolves tk a then
        (case select_parser (snd (splitext (arg_structure a))) of
           None \<Rightarrow> None
         | Some p \<Rightarrow>
             (case read_structure tk p (Seeded (cmd_seed (parse_args a)))
                     (fmlookup (files fs) (arg_structure a)) (cmd_forcefield (parse_args a)) of
                Inl e \<Rightarrow> None
              | Inr (ff, m) \<Rightarrow>
                  (case normalize_hydrogens tk (Seeded (cmd_seed (parse_args a))) ff m of
                     Inl e \<Rightarrow> Some m
                   | Inr m' \<Rightarrow> Some m')))
      else None)"
proof (cases "platform_resolves tk a")
  case True
  from buildSystem_resolved [OF True, of getenv fs]
  obtain st where st: "buildSystem tk getenv fs a = dispatch tk (Seeded (cmd_seed (parse_args a))) st"
      "filesys st = fs" "modeller st = None"
      "cmd st = (parse_args a)\<lparr>cmd_platform := resolved_platform tk a\<rparr>"
    by blast
  have c: "cmd_structure (cmd st) = arg_structure a" "cmd_forcefield (cmd st) = cmd_forcefield (parse_args a)"
    by (simp_all add: st(4) parse_args_def)
  show ?thesis
    using True
    by (simp add: st(1) dispatch_modeller c st(2,3) split: option.splits sum.splits prod.splits)
next
  case False
  from buildSystem_unresolved [OF False, of getenv fs] False show ?thesis
    by auto
qed

subsection \<open>The choice of the parser\<close>

text \<open>
  Claim C3. The parser is chosen by comparing the extension with \<open>.pdb\<close> and \<open>.cif\<close>,
  character by character: the PDB parser exactly for \<open>.pdb\<close>, the mmCIF parser exactly for
  \<open>.cif\<close>, none otherwise. When the script reaches the choice (the platform, if one is asked
  for, was found) and the extension of the structure path is neither, the script logs the
  error and exits with status 1, having parsed no structure and with the file system as it
  was; when it is one of the two, the rest of the script runs with the parser chosen.
\<close>

theorem format_dispatch:
  "(select_parser fext = Some PDBFile \<longleftrightarrow> fext = ''.pdb'') \<and>
   (select_parser fext = Some PDBxFile \<longleftrightarrow> fext = ''.cif'') \<and>
   (select_parser fext = None \<longleftrightarrow> fext \<noteq> ''.pdb'' \<and> fext \<noteq> ''.cif'') \<and>
   (platform_resolves tk a \<longrightarrow>
      (case select_parser (snd (splitext (arg_structure a))) of
         None \<Rightarrow>
           fst (buildSystem tk getenv fs a) = SysExit 1 \<and>
           filesys (snd (buildSystem tk getenv fs a)) = fs \<and>
           modeller (snd (buildSystem tk getenv fs a)) = None \<and>
           last (logged (snd (buildSystem tk getenv fs a))) = (ERROR, format_error)
       | Some p \<Rightarrow>
           (\<exists>st. buildSystem tk getenv fs a =
                   build tk (Seeded (cmd_seed (parse_args a))) p
                     (fst (splitext (arg_structure a))) st \<and>
                 filesys st = fs \<and> modeller st = None)))"
proof (intro conjI impI)
  show "select_parser fext = Some PDBFile \<longleftrightarrow> fext = ''.pdb''"
    by (simp add: select_parser_def)
  show "select_parser fext = Some PDBxFile \<longleftrightarrow> fext = ''.cif''"
    by (simp add: select_parser_def)
  show "select_parser fext = None \<longleftrightarrow> fext \<noteq> ''.pdb'' \<and> fext \<noteq> ''.cif''"
    by (simp add: select_parser_def)
next
  assume res: "platform_resolves tk a"
  from buildSystem_resolved [OF res, of getenv fs]
  obtain st where st: "buildSystem tk getenv fs a = dispatch tk (Seeded (cmd_seed (parse_args a))) st"
      "filesys st = fs" "modeller st = None"
      "cmd st = (parse_args a)\<lparr>cmd_platform := resolved_platform tk a\<rparr>"
    by blast
  have c: "cmd_structure (cmd st) = arg_structure a"
    by (simp add: st(4) parse_args_def)
  show "case select_parser (snd (splitext (arg_structure a))) of
         None \<Rightarrow>
           fst (buildSystem tk getenv fs a) = SysExit 1 \<and>
           filesys (snd (buildSystem tk getenv fs a)) = fs \<and>
           modeller (snd (buildSystem tk getenv fs a)) = None \<and>
           last (logged (snd (buildSystem tk getenv fs a))) = (ERROR, format_error)
       | Some p \<Rightarrow>
           (\<exists>st. buildSystem tk getenv fs a =
                   build tk (Seeded (cmd_seed (parse_args a))) p
                     (fst (splitext (arg_structure a))) st \<and>
                 filesys st = fs \<and> modeller st = None)"
  proof (cases "select_parser (snd (splitext (arg_structure a)))")
    case None
    then show ?thesis
      by (simp add: st(1,2,3) dispatch_def c logging_def case_prod_beta)
  next
    case (Some p)
    then have "buildSystem tk getenv fs a =
                 build tk (Seeded (cmd_seed (parse_args a))) p (fst (splitext (arg_structure a))) st"
      by (simp add: st(1) dispatch_def c case_prod_beta)
    with st(2,3) Some show ?thesis
      by auto
  qed
qed

text \<open>The extension \<open>.PDB\<close> is not \<open>.pdb\<close>: the script exits with status 1.\<close>

theorem format_dispatch_witness:
  "platform_resolves stub_toolkit (stub_argv ''foo.PDB'' (Some ''CPU'')) \<and>
   snd (splitext ''foo.PDB'') = ''.PDB'' \<and>
   fst (buildSystem stub_toolkit Map.empty stub_fs (stub_argv ''foo.PDB'' (Some ''CPU''))) = SysExit 1 \<and>
   filesys (snd (buildSystem stub_toolkit Map.empty stub_fs (stub_argv ''foo.PDB'' (Some ''CPU'')))) = stub_fs \<and>
   modeller (snd (buildSystem stub_toolkit Map.empty stub_fs (stub_argv ''foo.PDB'' (Some ''CPU'')))) = None"
proof -
  let ?a = "stub_argv ''foo.PDB'' (Some ''CPU'')"
  have r: "platform_resolves stub_toolkit ?a"
    by (simp add: platform_resolves_def stub_defs)
  have e: "snd (splitext ''foo.PDB'') = ''.PDB''"
    by (simp add: splitext_def rfind_def splitext_loop.simps)
  have n: "select_parser (snd (splitext (arg_structure ?a))) = None"
    by (simp add: stub_argv_def e select_parser_def)
  from format_dispatch [of "''.PDB''" stub_toolkit ?a Map.empty stub_fs] r n e show ?thesis
    by simp
qed

subsection \<open>The properties of the platform\<close>

text \<open>
  Claim C5, as the code has it. The script tells platforms apart by their name and by
  nothing else. At the end of the script the properties are: empty when no platform is
  asked for; for a platform that the toolkit finds under the name \<open>CUDA\<close>, \<open>CudaPrecision\<close>
  set to \<open>mixed\<close>, and \<open>DeviceIndex\<close> set to the value of \<^verbatim>\<open>CUDA_VISIBLE_DEVICES\<close> when that
  variable is set and not empty; for a platform found under the name \<open>CPU\<close>, \<open>Threads\<close> set
  to the value of \<^verbatim>\<open>SLURM_CPUS_PER_TASK\<close> when that variable is set and not empty, and
  nothing else.
\<close>

theorem platform_property_resolution:
  "(arg_platform a = None \<longrightarrow> properties (snd (buildSystem tk getenv fs a)) = Map.empty) \<and>
   (arg_platform a = Some s \<and> getPlatformByName tk s = Inr p \<and> getName p = ''CUDA'' \<longrightarrow>
      properties (snd (buildSystem tk getenv fs a)) =
        (case getenv ''CUDA_VISIBLE_DEVICES'' of
           None \<Rightarrow> [''CudaPrecision'' \<mapsto> ''mixed'']
         | Some gpu_ids \<Rightarrow>
             if gpu_ids \<noteq> [] then [''CudaPrecision'' \<mapsto> ''mixed'', ''DeviceIndex'' \<mapsto> gpu_ids]
             else [''CudaPrecision'' \<mapsto> ''mixed''])) \<and>
   (arg_platform a = Some s \<and> getPlatformByName tk s = Inr p \<and> getName p = ''CPU'' \<longrightarrow>
      properties (snd (buildSystem tk getenv fs a)) =
        (case getenv ''SLURM_CPUS_PER_TASK'' of
           None \<Rightarrow> Map.empty
         | Some cpu_threads \<Rightarrow>
             if cpu_threads \<noteq> [] then [''Threads'' \<mapsto> cpu_threads] else Map.empty))"
  by (auto simp: properties_buildSystem resolved_platform_def platform_properties_def
        split: option.splits)

theorem platform_property_resolution_witness:
  "properties (snd (buildSystem stub_toolkit [''CUDA_VISIBLE_DEVICES'' \<mapsto> ''0,1''] stub_fs
                      (stub_argv ''foo.pdb'' (Some ''CUDA'')))) =
     [''CudaPrecision'' \<mapsto> ''mixed'', ''DeviceIndex'' \<mapsto> ''0,1'']"
proof -
  have "arg_platform (stub_argv ''foo.pdb'' (Some ''CUDA'')) = Some ''CUDA'' \<and>
        getPlatformByName stub_toolkit ''CUDA'' = Inr \<lparr>getName = ''CUDA''\<rparr> \<and>
        getName \<lparr>getName = ''CUDA''\<rparr> = ''CUDA''"
    by (simp add: stub_defs)
  with platform_property_resolution [of "stub_argv ''foo.pdb'' (Some ''CUDA'')" stub_toolkit
         "[''CUDA_VISIBLE_DEVICES'' \<mapsto> ''0,1'']" stub_fs "''CUDA''" "\<lparr>getName = ''CUDA''\<rparr>"]
  show ?thesis
    by simp
qed

text \<open>
  Claim C5 as it is stated, for every platform of the GPU class, fails for OpenCL: it
  runs on GPUs as CUDA does, the toolkit finds it, \<^verbatim>\<open>CUDA_VISIBLE_DEVICES\<close> is set, and the
  properties hold neither the mixed precision nor the device index.
\<close>

theorem opencl_no_mixed_precision:
  "getPlatformByName stub_toolkit ''OpenCL'' = Inr \<lparr>getName = ''OpenCL''\<rparr> \<and>
   properties (snd (buildSystem stub_toolkit [''CUDA_VISIBLE_DEVICES'' \<mapsto> ''0''] stub_fs
                      (stub_argv ''foo.pdb'' (Some ''OpenCL'')))) ''CudaPrecision'' = None \<and>
   properties (snd (buildSystem stub_toolkit [''CUDA_VISIBLE_DEVICES'' \<mapsto> ''0''] stub_fs
                      (stub_argv ''foo.pdb'' (Some ''OpenCL'')))) ''DeviceIndex'' = None"
  by (simp add: script_defs stub_defs Let_def)

text \<open>
  Claim C10. For a platform that the toolkit finds under any name other than \<open>CUDA\<close> and
  \<open>CPU\<close>, the properties stay empty, whatever the environment holds.
\<close>

theorem other_platforms_no_properties:
  assumes "arg_platform a = Some s" and "getPlatformByName tk s = Inr p"
    and "getName p \<noteq> ''CUDA''" and "getName p \<noteq> ''CPU''"
  shows "properties (snd (buildSystem tk getenv fs a)) = Map.empty"
  using assms
  by (simp add: properties_buildSystem resolved_platform_def platform_properties_def)

theorem other_platforms_no_properties_witness:
  "getPlatformByName stub_toolkit ''OpenCL'' = Inr \<lparr>getName = ''OpenCL''\<rparr> \<and>
   properties (snd (buildSystem stub_toolkit
                      [''CUDA_VISIBLE_DEVICES'' \<mapsto> ''0'', ''SLURM_CPUS_PER_TASK'' \<mapsto> ''8'']
                      stub_fs (stub_argv ''foo.pdb'' (Some ''OpenCL'')))) = Map.empty"
proof -
  have p: "getPlatformByName stub_toolkit ''OpenCL'' = Inr \<lparr>getName = ''OpenCL''\<rparr>"
    by (simp add: stub_defs)
  have a: "arg_platform (stub_argv ''foo.pdb'' (Some ''OpenCL'')) = Some ''OpenCL''"
    by (simp add: stub_defs)
  from other_platforms_no_properties [OF a p] p show ?thesis
    by simp
qed

subsection \<open>The namespace of the arguments\<close>

text \<open>
  Claim C6, as the code has it. At the end of the script \<^verbatim>\<open>cmd\<close> is what \<^verbatim>\<open>parse_args\<close> built
  except for \<^verbatim>\<open>cmd.platform\<close>, which holds the platform object when a platform was asked for
  and found: the structure path, the output path, the force field and the seed are never
  assigned to.
\<close>

theorem cmd_only_platform_replaced:
  "cmd (snd (buildSystem tk getenv fs a)) =
     (parse_args a)\<lparr>cmd_platform := resolved_platform tk a\<rparr> \<and>
   cmd_structure (cmd (snd (buildSystem tk getenv fs a))) = cmd_structure (parse_args a) \<and>
   cmd_output (cmd (snd (buildSystem tk getenv fs a))) = cmd_output (parse_args a) \<and>
   cmd_forcefield (cmd (snd (buildSystem tk getenv fs a))) = cmd_forcefield (parse_args a) \<and>
   cmd_seed (cmd (snd (buildSystem tk getenv fs a))) = cmd_seed (parse_args a)"
  by (simp add: cmd_buildSystem)

theorem cmd_only_platform_replaced_witness:
  "cmd (snd (buildSystem stub_toolkit Map.empty stub_fs (stub_argv ''foo.pdb'' (Some ''CPU'')))) =
     \<lparr>cmd_structure = ''foo.pdb'', cmd_output = None, cmd_forcefield = ''amber99sbildn.xml'',
      cmd_platform = PyPlatform \<lparr>getName = ''CPU''\<rparr>, cmd_seed = 917\<rparr>"
  using cmd_only_platform_replaced [of stub_toolkit Map.empty stub_fs "stub_argv ''foo.pdb'' (Some ''CPU'')"]
  by (simp add: resolved_platform_def parse_args_def stub_defs)

text \<open>
  Claim C6 as it is stated fails for \<^verbatim>\<open>--platform CPU\<close>: \<^verbatim>\<open>parse_args\<close> puts the string
  \<open>CPU\<close> in \<^verbatim>\<open>cmd.platform\<close> and the script replaces it by the platform object.
\<close>

theorem cmd_platform_reassigned:
  "cmd_platform (parse_args (stub_argv ''foo.pdb'' (Some ''CPU''))) = PyStr ''CPU'' \<and>
   cmd_platform (cmd (snd (buildSystem stub_toolkit Map.empty stub_fs
                             (stub_argv ''foo.pdb'' (Some ''CPU''))))) =
     PyPlatform \<lparr>getName = ''CPU''\<rparr> \<and>
   cmd (snd (buildSystem stub_toolkit Map.empty stub_fs (stub_argv ''foo.pdb'' (Some ''CPU'')))) \<noteq>
     parse_args (stub_argv ''foo.pdb'' (Some ''CPU''))"
  by (simp add: script_defs stub_defs Let_def)

subsection \<open>Two runs\<close>

text \<open>
  Claim C7. The toolkit's routines being functions of their arguments and of the state of
  the seeded generator, two runs with the same structure path, the same contents of that
  file, the same force field and the same seed end with the same modeller (the same atoms,
  bonds and positions, or none in both), whatever the environment, the rest of the file
  system and the output path of each; of the platform only whether it is found matters.
\<close>

theorem same_seed_same_input_same_topology:
  assumes "arg_structure a1 = arg_structure a2"
    and "cmd_forcefield (parse_args a1) = cmd_forcefield (parse_args a2)"
    and "cmd_seed (parse_args a1) = cmd_seed (parse_args a2)"
    and "platform_resolves tk a1 = platform_resolves tk a2"
    and "fmlookup (files fs1) (arg_structure a1) = fmlookup (files fs2) (arg_structure a2)"
  shows "modeller (snd (buildSystem tk getenv1 fs1 a1)) =
         modeller (snd (buildSystem tk getenv2 fs2 a2))"
proof -
  have r: "Seeded (cmd_seed (parse_args a1)) = Seeded (cmd_seed (parse_args a2))"
    using assms(3) by simp
  have c: "fmlookup (files fs1) (arg_structure a2) = fmlookup (files fs2) (arg_structure a2)"
    using assms(1,5) by simp
  show ?thesis
    unfolding modeller_buildSystem assms(1,2,4) r c by (rule refl)
qed

theorem same_seed_same_input_same_topology_witness:
  "modeller (snd (buildSystem stub_toolkit Map.empty stub_fs (stub_argv ''foo.pdb'' None))) =
   modeller (snd (buildSystem stub_toolkit [''SLURM_CPUS_PER_TASK'' \<mapsto> ''4'']
                    (stub_fs\<lparr>files := fmupd ''foo_H.cif'' ''NCH1'' (files stub_fs)\<rparr>)
                    ((stub_argv ''foo.pdb'' None)\<lparr>arg_output := Some ''second''\<rparr>))) \<and>
   map_option (\<lambda>m. map atom_name (atoms (topology m)))
     (modeller (snd (buildSystem stub_toolkit Map.empty stub_fs (stub_argv ''foo.pdb'' None)))) =
     Some [''N'', ''C'', ''H1'']"
proof -
  let ?a1 = "stub_argv ''foo.pdb'' None"
  let ?a2 = "(stub_argv ''foo.pdb'' None)\<lparr>arg_output := Some ''second''\<rparr>"
  let ?fs2 = "stub_fs\<lparr>files := fmupd ''foo_H.cif'' ''NCH1'' (files stub_fs)\<rparr>"
  have h: "arg_structure ?a1 = arg_structure ?a2"
      "cmd_forcefield (parse_args ?a1) = cmd_forcefield (parse_args ?a2)"
      "cmd_seed (parse_args ?a1) = cmd_seed (parse_args ?a2)"
      "platform_resolves stub_toolkit ?a1 = platform_resolves stub_toolkit ?a2"
      "fmlookup (files stub_fs) (arg_structure ?a1) = fmlookup (files ?fs2) (arg_structure ?a2)"
    by (simp_all add: stub_defs parse_args_def platform_resolves_def)
  have v: "map_option (\<lambda>m. map atom_name (atoms (topology m)))
     (modeller (snd (buildSystem stub_toolkit Map.empty stub_fs ?a1))) = Some [''N'', ''C'', ''H1'']"
    by (simp add: script_defs stub_defs Let_def)
  from same_seed_same_input_same_topology [OF h, of Map.empty "[''SLURM_CPUS_PER_TASK'' \<mapsto> ''4'']"] v
  show ?thesis
    by simp
qed

text \<open>
  Claim C8. Two runs on the same file system with the same structure path, output path,
  force field and seed, each with a platform that is found or with none, and each with
  any environment, end with the same status, the same file system (so the same file
  written with the same contents) and the same modeller: neither the platform nor
  \<^verbatim>\<open>CUDA_VISIBLE_DEVICES\<close> and \<^verbatim>\<open>SLURM_CPUS_PER_TASK\<close> reach what is written.
\<close>

theorem platform_noninterference:
  assumes "platform_resolves tk a1" and "platform_resolves tk a2"
    and "arg_structure a1 = arg_structure a2" and "arg_output a1 = arg_output a2"
    and "arg_forcefield a1 = arg_forcefield a2" and "arg_seed a1 = arg_seed a2"
  shows "fst (buildSystem tk getenv1 fs a1) = fst (buildSystem tk getenv2 fs a2) \<and>
         filesys (snd (buildSystem tk getenv1 fs a1)) = filesys (snd (buildSystem tk getenv2 fs a2)) \<and>
         modeller (snd (buildSystem tk getenv1 fs a1)) = modeller (snd (buildSystem tk getenv2 fs a2))"
proof -
  let ?r = "Seeded (cmd_seed (parse_args a1))"
  have r: "Seeded (cmd_seed (parse_args a2)) = ?r"
    using assms(6) by (simp add: parse_args_def)
  from buildSystem_resolved [OF assms(1), of getenv1 fs]
  obtain st1 where st1: "buildSystem tk getenv1 fs a1 = dispatch tk ?r st1"
      "filesys st1 = fs" "modeller st1 = None" "rng st1 = Some ?r"
      "cmd st1 = (parse_args a1)\<lparr>cmd_platform := resolved_platform tk a1\<rparr>"
    by blast
  from buildSystem_resolved [OF assms(2), of getenv2 fs]
  obtain st2 where st2: "buildSystem tk getenv2 fs a2 = dispatch tk ?r st2"
      "filesys st2 = fs" "modeller st2 = None" "rng st2 = Some ?r"
      "cmd st2 = (parse_args a2)\<lparr>cmd_platform := resolved_platform tk a2\<rparr>"
    unfolding r by blast
  have "same_inputs st1 st2"
    using assms(3-6) by (simp add: same_inputs_def st1(2-5) st2(2-5) parse_args_def)
  from dispatch_same [OF this, of tk ?r] show ?thesis
    by (simp add: st1(1) st2(1) same_inputs_def)
qed

theorem platform_noninterference_witness:
  "fst (buildSystem stub_toolkit Map.empty stub_fs (stub_argv ''foo.pdb'' None)) =
   fst (buildSystem stub_toolkit [''CUDA_VISIBLE_DEVICES'' \<mapsto> ''1''] stub_fs
          (stub_argv ''foo.pdb'' (Some ''CUDA''))) \<and>
   filesys (snd (buildSystem stub_toolkit Map.empty stub_fs (stub_argv ''foo.pdb'' None))) =
   filesys (snd (buildSystem stub_toolkit [''CUDA_VISIBLE_DEVICES'' \<mapsto> ''1''] stub_fs
                   (stub_argv ''foo.pdb'' (Some ''CUDA'')))) \<and>
   fst (buildSystem stub_toolkit Map.empty stub_fs (stub_argv ''foo.pdb'' None)) = Completed \<and>
   fmlookup (files (filesys (snd (buildSystem stub_toolkit Map.empty stub_fs
                                   (stub_argv ''foo.pdb'' None))))) ''foo_H.cif'' = Some ''NCH1''"
proof -
  let ?a1 = "stub_argv ''foo.pdb'' None"
  let ?a2 = "stub_argv ''foo.pdb'' (Some ''CUDA'')"
  have h: "platform_resolves stub_toolkit ?a1" "platform_resolves stub_toolkit ?a2"
      "arg_structure ?a1 = arg_structure ?a2" "arg_output ?a1 = arg_output ?a2"
      "arg_forcefield ?a1 = arg_forcefield ?a2" "arg_seed ?a1 = arg_seed ?a2"
    by (simp_all add: stub_defs platform_resolves_def)
  have v: "fst (buildSystem stub_toolkit Map.empty stub_fs ?a1) = Completed"
      "fmlookup (files (filesys (snd (buildSystem stub_toolkit Map.empty stub_fs ?a1)))) ''foo_H.cif''
         = Some ''NCH1''"
    by (simp_all add: script_defs stub_defs Let_def)
  from platform_noninterference [OF h, of Map.empty stub_fs "[''CUDA_VISIBLE_DEVICES'' \<mapsto> ''1'']"] v
  show ?thesis
    by simp
qed

end
